theory Spec2Isabelle
  imports Complex_Main
begin

section \<open>The GPT-4o OCR agent of \<^verbatim>\<open>unstructured/partition/utils/ocr_models/gpt4o_ocr.py\<close>\<close>

text \<open>
  The agent is a thin wrapper around three external libraries: PIL (PNG encoding and
  resizing of images), the OpenAI client (one chat completion per extraction) and
  \<^verbatim>\<open>json\<close>. Their functions are parameters of the model (the record
  \<open>externals\<close>); every one of them may raise. What the agent itself does, the order of
  its checks, the exceptions it raises, the log records it writes, the requests it
  sends and the objects it allocates, is written out.
\<close>

subsection \<open>Exceptions and Python values\<close>

datatype exn =
    AssertionError string
  | ValueError string
  | KeyError string
  | IndexError
  | TypeError
  | LibraryError string  \<comment> \<open>anything raised inside PIL, the OpenAI client or \<^verbatim>\<open>json\<close>\<close>

text \<open>
  What \<^verbatim>\<open>json.loads\<close> can return. A \<^verbatim>\<open>dict\<close> keeps its items in
  insertion order, so it is an association list; \<open>len\<close> of it is the number of items.
  A \<^verbatim>\<open>str\<close> is the list of its characters.
\<close>

datatype pyval =
    PNone
  | PBool bool
  | PInt int
  | PFloat string  \<comment> \<open>the literal; no claim computes with it\<close>
  | PStr string
  | PList "pyval list"
  | PDict "(string \<times> pyval) list"

subsection \<open>Images, requests, responses\<close>

record image =
  width :: nat
  height :: nat
  pixels :: "nat list"

type_synonym ref = nat

text \<open>
  \<^verbatim>\<open>base64.b64encode\<close> returns \<^verbatim>\<open>bytes\<close>; \<open>get_text_from_image\<close> sends them as
  they are, \<open>get_layout_from_image\<close> decodes them to \<^verbatim>\<open>str\<close> first.
\<close>

datatype payload = Bytes string | Str string

datatype msg_body = Text string | Parts "(string \<times> payload) list"

record chat_message =
  role :: string
  body :: msg_body  \<comment> \<open>the key \<^verbatim>\<open>"content"\<close> of the message dict\<close>

record request =
  kw_model :: string
  kw_messages :: "chat_message list"
  kw_temperature :: rat
  kw_response_format :: "(string \<times> string) list option"
  kw_max_tokens :: "nat option"

record completion_message =
  content :: "string option"

record completion_choice =
  message :: completion_message

record chat_completion =
  choices :: "completion_choice list"

record openai_client =
  api_key :: string

record ocr_agent =
  model :: string
  client :: openai_client

datatype Source = OCR_GPT4O | Other_Source string

datatype ElementType = UNCATEGORIZED_TEXT | Other_ElementType string

record Rectangle =
  x1 :: int
  y1 :: int
  x2 :: int
  y2 :: int

record TextRegion =
  bbox :: Rectangle
  para_text :: pyval  \<comment> \<open>whatever the enumeration yields; the code does not check it is a string\<close>
  source :: Source

record LayoutElement =
  el_bbox :: Rectangle
  el_text :: pyval
  el_source :: Source
  el_type :: ElementType

subsection \<open>The world: environment, object store, observable events\<close>

datatype log_record =
    Info_OpenAI_Response chat_completion
  | Info_Image_size nat  \<comment> \<open>\<^verbatim>\<open>len(encoded_image)\<close>, printed in MB\<close>
  | Info_Resizing
  | Error_Expected_dict pyval
  | Error_Expected_one_pair pyval
  | Error_Extracting exn
  | Error_Response_content pyval

datatype event =
    Save ref  \<comment> \<open>\<^verbatim>\<open>image.save(buffer, format="PNG")\<close>\<close>
  | Resize ref "nat \<times> nat"  \<comment> \<open>\<^verbatim>\<open>image.resize(size)\<close>\<close>
  | Log log_record
  | Create request  \<comment> \<open>the network call \<^verbatim>\<open>client.chat.completions.create\<close>\<close>

text \<open>The events that encode or resize an image.\<close>

fun is_image_op :: "event \<Rightarrow> bool" where
  "is_image_op (Save r) = True"
| "is_image_op (Resize r sz) = True"
| "is_image_op (Log rec) = False"
| "is_image_op (Create req) = False"

record world =
  environ :: "string \<rightharpoonup> string"
  heap :: "ref \<Rightarrow> image"
  next_ref :: ref  \<comment> \<open>the objects allocated so far are those below \<open>next_ref\<close>\<close>
  trace :: "event list"

record externals =
  png_bytes :: "image \<Rightarrow> exn + string"
  b64encode :: "string \<Rightarrow> string"
  resample :: "image \<Rightarrow> nat \<times> nat \<Rightarrow> exn + nat list"
  chat_completions_create :: "openai_client \<Rightarrow> request \<Rightarrow> exn + chat_completion"
  json_loads :: "string \<Rightarrow> exn + pyval"

type_synonym 'a prog = "world \<Rightarrow> (exn + 'a) \<times> world"

definition ret :: "'a \<Rightarrow> 'a prog" where
  "ret x w = (Inr x, w)"

definition raise :: "exn \<Rightarrow> 'a prog" where
  "raise e w = (Inl e, w)"

definition lift :: "exn + 'a \<Rightarrow> 'a prog" where
  "lift r w = (r, w)"

definition seq :: "'a prog \<Rightarrow> ('a \<Rightarrow> 'b prog) \<Rightarrow> 'b prog" where
  "seq m f w = (case m w of (Inl e, w') \<Rightarrow> (Inl e, w') | (Inr x, w') \<Rightarrow> f x w')"

definition emit :: "event \<Rightarrow> unit prog" where
  "emit ev w = (Inr (), w\<lparr>trace := trace w @ [ev]\<rparr>)"

definition logger_info :: "log_record \<Rightarrow> unit prog" where
  "logger_info r = emit (Log r)"

definition logger_error :: "log_record \<Rightarrow> unit prog" where
  "logger_error r = emit (Log r)"

text \<open>\<^verbatim>\<open>image.save\<close> reads the object and writes the buffer; it does not touch the store.\<close>

definition image_save :: "externals \<Rightarrow> ref \<Rightarrow> string prog" where
  "image_save X img = seq (emit (Save img)) (\<lambda>_ w. (png_bytes X (heap w img), w))"

text \<open>
  \<^verbatim>\<open>image.resize(size)\<close> returns a new image object of the requested size (PIL:
  "returns a resized copy of this image"): a fresh reference is allocated, the
  pixels are those the resampler computes.
\<close>

definition image_resize :: "externals \<Rightarrow> ref \<Rightarrow> nat \<times> nat \<Rightarrow> ref prog" where
  "image_resize X img sz =
     seq (emit (Resize img sz)) (\<lambda>_ w.
       case resample X (heap w img) sz of
         Inl e \<Rightarrow> (Inl e, w)
       | Inr px \<Rightarrow>
           (Inr (next_ref w),
            w\<lparr>heap := (heap w)(next_ref w := \<lparr>width = fst sz, height = snd sz, pixels = px\<rparr>),
              next_ref := Suc (next_ref w)\<rparr>))"

definition create :: "externals \<Rightarrow> ocr_agent \<Rightarrow> request \<Rightarrow> chat_completion prog" where
  "create X self req =
     seq (emit (Create req)) (\<lambda>_. lift (chat_completions_create X (client self) req))"

text \<open>\<^verbatim>\<open>xs[0]\<close>\<close>

definition index0 :: "'a list \<Rightarrow> exn + 'a" where
  "index0 xs = (case xs of [] \<Rightarrow> Inl IndexError | x # _ \<Rightarrow> Inr x)"

subsection \<open>\<^verbatim>\<open>OCRAgentGPT4O.__init__\<close> (lines 30 to 35)\<close>

text \<open>
  The \<^verbatim>\<open>assert\<close> of line 32 (assertions enabled, as Python runs by default), then
  the lookup of line 35. Building the client object sends nothing.
\<close>

definition init :: "ocr_agent prog" where
  "init w =
     (if ''OPENAI_API_KEY'' \<in> dom (environ w) \<and> environ w ''OPENAI_API_KEY'' \<noteq> Some ''''
      then (case environ w ''OPENAI_API_KEY'' of
              None \<Rightarrow> (Inl (KeyError ''OPENAI_API_KEY''), w)
            | Some k \<Rightarrow> (Inr \<lparr>model = ''gpt-4o'', client = \<lparr>api_key = k\<rparr>\<rparr>, w))
      else (Inl (AssertionError
              ''Please set the OPENAI_API_KEY environment variable to use the OpenAI API.''), w))"

definition is_text_sorted :: "ocr_agent \<Rightarrow> bool" where
  "is_text_sorted self = True"

subsection \<open>\<^verbatim>\<open>get_text_from_image\<close> (lines 40 to 68)\<close>

definition text_request :: "ocr_agent \<Rightarrow> string \<Rightarrow> request" where
  "text_request self encoded_image =
     \<lparr>kw_model = model self,
      kw_messages =
        [\<lparr>role = ''system'',
          body = Text ''You are a helpful assistant that performs OCR tasks. Transcribe the following image only with the text that appears in the image.''\<rparr>,
         \<lparr>role = ''user'', body = Parts [(''image'', Bytes encoded_image)]\<rparr>],
      kw_temperature = 0,
      kw_response_format = None,
      kw_max_tokens = None\<rparr>"

text \<open>
  \<^verbatim>\<open>"" if not c else c\<close> for \<^verbatim>\<open>c = response.choices[0].message.content\<close>:
  \<^verbatim>\<open>None\<close> and \<^verbatim>\<open>""\<close> are the falsy contents. The source reads
  \<^verbatim>\<open>response.choices[0]\<close> twice, with the same outcome; the model reads it once.
  Line 45, \<^verbatim>\<open>image.info\<close>, reads an attribute and drops it.
\<close>

definition falsy :: "string option \<Rightarrow> bool" where
  "falsy c = (case c of None \<Rightarrow> True | Some s \<Rightarrow> s = '''')"

definition get_text_from_image :: "externals \<Rightarrow> ocr_agent \<Rightarrow> ref \<Rightarrow> string \<Rightarrow> string prog" where
  "get_text_from_image X self img ocr_languages =
     seq (image_save X img) (\<lambda>buffer.
     let encoded_image = b64encode X buffer in
     seq (create X self (text_request self encoded_image)) (\<lambda>response.
     seq (logger_info (Info_OpenAI_Response response)) (\<lambda>_.
     seq (lift (index0 (choices response))) (\<lambda>choice0.
       if falsy (content (message choice0)) then ret ''''
       else (case content (message choice0) of
               None \<Rightarrow> ret ''''
             | Some s \<Rightarrow> ret s)))))"

subsection \<open>\<^verbatim>\<open>get_layout_from_image\<close> (lines 75 to 144)\<close>

text \<open>
  Lines 80 to 82 and 89 to 91: save as PNG, base64-encode, decode to \<^verbatim>\<open>str\<close> (the
  base64 alphabet is ASCII, so decoding changes no byte and cannot fail).
\<close>

definition encode_image :: "externals \<Rightarrow> ref \<Rightarrow> string prog" where
  "encode_image X img = seq (image_save X img) (\<lambda>buffer. ret (b64encode X buffer))"

text \<open>
  \<^verbatim>\<open>img_size_mb = len(encoded_image) / 1024 / 1024\<close> and \<^verbatim>\<open>img_size_mb > 20\<close>:
  dividing a length by a power of two is exact in binary floating point, so the test
  is on the length itself.
\<close>

definition too_large :: "string \<Rightarrow> bool" where
  "too_large encoded_image = (length encoded_image > 20 * 1024 * 1024)"

text \<open>
  \<^verbatim>\<open>int(n * 0.75)\<close> for a width or height \<open>n\<close>: \<open>0.75\<close> and the product are exact
  in binary floating point for every size an image can have, and \<^verbatim>\<open>int\<close>
  truncates.
\<close>

definition scaled :: "nat \<Rightarrow> nat" where
  "scaled n = (n * 3) div 4"

text \<open>The body of the loop, lines 85 to 91.\<close>

definition resize_step :: "externals \<Rightarrow> ref \<Rightarrow> string \<Rightarrow> (ref \<times> string) prog" where
  "resize_step X img encoded_image =
     seq (logger_info (Info_Image_size (length encoded_image))) (\<lambda>_.
     seq (logger_info Info_Resizing) (\<lambda>_.
     seq (\<lambda>w. image_resize X img (scaled (width (heap w img)), scaled (height (heap w img))) w)
       (\<lambda>img'.
     seq (encode_image X img') (\<lambda>encoded_image'.
     ret (img', encoded_image')))))"

text \<open>
  The loop of line 84. It has no iteration cap; \<open>None\<close> is the run that never leaves
  it.
\<close>

partial_function (option) resize_while ::
  "externals \<Rightarrow> ref \<Rightarrow> string \<Rightarrow> world \<Rightarrow> ((exn + ref \<times> string) \<times> world) option" where
  "resize_while X img encoded_image w =
     (if too_large encoded_image then
        (case resize_step X img encoded_image w of
           (Inl e, w') \<Rightarrow> Some (Inl e, w')
         | (Inr (img', encoded_image'), w') \<Rightarrow> resize_while X img' encoded_image' w')
      else Some (Inr (img, encoded_image), w))"

text \<open>Lines 79 to 91: the first encoding, then the loop.\<close>

definition fit_payload ::
  "externals \<Rightarrow> ref \<Rightarrow> world \<Rightarrow> ((exn + ref \<times> string) \<times> world) option" where
  "fit_payload X img w =
     (case encode_image X img w of
        (Inl e, w') \<Rightarrow> Some (Inl e, w')
      | (Inr encoded_image, w') \<Rightarrow> resize_while X img encoded_image w')"

definition layout_request :: "ocr_agent \<Rightarrow> string \<Rightarrow> request" where
  "layout_request self encoded_image =
     \<lparr>kw_model = model self,
      kw_messages =
        [\<lparr>role = ''system'',
          body = Text ''You are a helpful assistant tasked with performing OCR tasks. Please transcribe the text from the image provided into a list of paragraphs. Each paragraph should be a string in a JSON array. Ensure that the output is a valid JSON object with a key 'paragraphs' containing the array of transcribed text. The text can appear in any direction in the image.''\<rparr>,
         \<lparr>role = ''user'', body = Parts [(''image'', Str encoded_image)]\<rparr>],
      kw_temperature = 0,
      kw_response_format = Some [(''type'', ''json_object'')],
      kw_max_tokens = Some 4096\<rparr>"

text \<open>
  What a \<^verbatim>\<open>for\<close> over a Python value yields: the elements of a list, the
  one-character strings of a string, the keys of a dict; \<^verbatim>\<open>None\<close>, booleans and
  numbers are not iterable.
\<close>

fun py_iter :: "pyval \<Rightarrow> exn + pyval list" where
  "py_iter (PList xs) = Inr xs"
| "py_iter (PStr s) = Inr (map (\<lambda>c. PStr [c]) s)"
| "py_iter (PDict items) = Inr (map (\<lambda>kv. PStr (fst kv)) items)"
| "py_iter PNone = Inl TypeError"
| "py_iter (PBool b) = Inl TypeError"
| "py_iter (PInt i) = Inl TypeError"
| "py_iter (PFloat f) = Inl TypeError"

text \<open>\<^verbatim>\<open>isinstance(v, dict)\<close>\<close>

fun isinstance_dict :: "pyval \<Rightarrow> bool" where
  "isinstance_dict (PDict items) = True"
| "isinstance_dict PNone = False"
| "isinstance_dict (PBool b) = False"
| "isinstance_dict (PInt i) = False"
| "isinstance_dict (PFloat f) = False"
| "isinstance_dict (PStr s) = False"
| "isinstance_dict (PList xs) = False"

text \<open>The items of a dict, in order. It is only called on a value that is a dict.\<close>

fun dict_items :: "pyval \<Rightarrow> (string \<times> pyval) list" where
  "dict_items (PDict items) = items"
| "dict_items PNone = []"
| "dict_items (PBool b) = []"
| "dict_items (PInt i) = []"
| "dict_items (PFloat f) = []"
| "dict_items (PStr s) = []"
| "dict_items (PList xs) = []"

text \<open>The comprehension of lines 137 to 144.\<close>

definition text_regions :: "pyval \<Rightarrow> exn + TextRegion list" where
  "text_regions paragraph_list =
     (case py_iter paragraph_list of
        Inl e \<Rightarrow> Inl e
      | Inr paragraphs \<Rightarrow>
          Inr (map (\<lambda>(i, paragraph).
                 \<lparr>bbox = \<lparr>x1 = int i, y1 = int i, x2 = int i + 1, y2 = int i + 1\<rparr>,
                  para_text = paragraph,
                  source = OCR_GPT4O\<rparr>)
               (List.enumerate 0 paragraphs)))"

text \<open>Lines 117 to 144: from the response to the regions.\<close>

definition read_paragraphs :: "externals \<Rightarrow> chat_completion \<Rightarrow> TextRegion list prog" where
  "read_paragraphs X response =
     seq (lift (index0 (choices response))) (\<lambda>choice0.
     seq (if falsy (content (message choice0)) then ret (PList [])
          else (case content (message choice0) of
                  None \<Rightarrow> ret (PList [])
                | Some s \<Rightarrow> lift (json_loads X s))) (\<lambda>paragraph_list.
     if \<not> isinstance_dict paragraph_list then
       seq (logger_error (Error_Expected_dict paragraph_list)) (\<lambda>_.
       raise (ValueError ''Expected a dictionary object for the response content.''))
     else if length (dict_items paragraph_list) > 1 then
       seq (logger_error (Error_Expected_one_pair paragraph_list)) (\<lambda>_.
       raise (ValueError ''Expected a dictionary object with one key-value pair.''))
     else
       (case index0 (map snd (dict_items paragraph_list)) of
          Inl e \<Rightarrow>
            seq (logger_error (Error_Extracting e)) (\<lambda>_.
            seq (logger_error (Error_Response_content paragraph_list)) (\<lambda>_.
            raise (ValueError
              ''Error while extracting the paragraph list from the response content.'')))
        | Inr paragraph_list' \<Rightarrow> lift (text_regions paragraph_list'))))"

text \<open>Lines 93 to 144: what follows the loop.\<close>

definition transcribe :: "externals \<Rightarrow> ocr_agent \<Rightarrow> string \<Rightarrow> TextRegion list prog" where
  "transcribe X self encoded_image =
     seq (logger_info (Info_Image_size (length encoded_image))) (\<lambda>_.
     seq (create X self (layout_request self encoded_image)) (\<lambda>response.
     seq (logger_info (Info_OpenAI_Response response)) (\<lambda>_.
     read_paragraphs X response)))"

definition get_layout_from_image ::
  "externals \<Rightarrow> ocr_agent \<Rightarrow> ref \<Rightarrow> string \<Rightarrow> world \<Rightarrow> ((exn + TextRegion list) \<times> world) option"
  where
  "get_layout_from_image X self img ocr_languages w =
     (case fit_payload X img w of
        None \<Rightarrow> None
      | Some (Inl e, w') \<Rightarrow> Some (Inl e, w')
      | Some (Inr (img', encoded_image), w') \<Rightarrow> Some (transcribe X self encoded_image w'))"

subsection \<open>\<^verbatim>\<open>get_layout_elements_from_image\<close> (lines 146 to 163)\<close>

text \<open>
  Modelled from the spec: \<^verbatim>\<open>build_layout_element\<close> of
  \<^verbatim>\<open>unstructured.partition.pdf_image.inference_utils\<close> is not among the sources. The
  spec describes it as the builder of a layout element from a bbox, a text, a source
  tag and an element type; it is the record of those four.
\<close>

definition build_layout_element ::
  "Rectangle \<Rightarrow> pyval \<Rightarrow> Source \<Rightarrow> ElementType \<Rightarrow> LayoutElement" where
  "build_layout_element b t s element_type =
     \<lparr>el_bbox = b, el_text = t, el_source = s, el_type = element_type\<rparr>"

definition get_layout_elements_from_image ::
  "externals \<Rightarrow> ocr_agent \<Rightarrow> ref \<Rightarrow> string \<Rightarrow> world \<Rightarrow> ((exn + LayoutElement list) \<times> world) option"
  where
  "get_layout_elements_from_image X self img ocr_languages w =
     (case get_layout_from_image X self img ocr_languages w of
        None \<Rightarrow> None
      | Some (Inl e, w') \<Rightarrow> Some (Inl e, w')
      | Some (Inr ocr_regions, w') \<Rightarrow>
          Some (Inr (map (\<lambda>r. build_layout_element (bbox r) (para_text r) (source r)
                                UNCATEGORIZED_TEXT) ocr_regions), w'))"

subsection \<open>Concrete inputs\<close>

text \<open>
  A caller's world with one image object, at reference 0, and the credential set; an
  agent as \<open>init\<close> builds it there; and stand-ins for the libraries: a PNG encoder
  that writes one byte per pixel, a base64 encoder that keeps the bytes, a resampler
  that fills the requested size, a service that answers every request with one choice
  holding a fixed content, and the parse of a few JSON texts.
\<close>

definition example_world :: "image \<Rightarrow> world" where
  "example_world im =
     \<lparr>environ = [''OPENAI_API_KEY'' \<mapsto> ''sk-example''],
      heap = (\<lambda>_. im),
      next_ref = 1,
      trace = []\<rparr>"

definition example_agent :: ocr_agent where
  "example_agent = \<lparr>model = ''gpt-4o'', client = \<lparr>api_key = ''sk-example''\<rparr>\<rparr>"

definition small_image :: image where
  "small_image = \<lparr>width = 2, height = 2, pixels = [0, 0, 0, 0]\<rparr>"

definition big_image :: image where
  "big_image = \<lparr>width = 5000, height = 5000, pixels = []\<rparr>"

definition json_two_paragraphs :: string where
  \<open>json_two_paragraphs = ''{"paragraphs": ["a", "b"]}''\<close>

definition json_string_value :: string where
  \<open>json_string_value = ''{"paragraphs": "ab"}''\<close>

definition json_two_keys :: string where
  \<open>json_two_keys = ''{"paragraphs": ["a"], "notes": ["b"]}''\<close>

definition json_array :: string where
  \<open>json_array = ''["a", "b"]''\<close>

definition json_empty_object :: string where
  \<open>json_empty_object = ''{}''\<close>

definition example_loads :: "string \<Rightarrow> exn + pyval" where
  "example_loads s =
     (if s = json_two_paragraphs then
        Inr (PDict [(''paragraphs'', PList [PStr ''a'', PStr ''b''])])
      else if s = json_string_value then
        Inr (PDict [(''paragraphs'', PStr ''ab'')])
      else if s = json_two_keys then
        Inr (PDict [(''paragraphs'', PList [PStr ''a'']), (''notes'', PList [PStr ''b''])])
      else if s = json_array then
        Inr (PList [PStr ''a'', PStr ''b''])
      else if s = json_empty_object then
        Inr (PDict [])
      else Inl (LibraryError ''JSONDecodeError''))"

definition example_externals :: "string option \<Rightarrow> externals" where
  "example_externals answer =
     \<lparr>png_bytes = (\<lambda>im. Inr (replicate (width im * height im) CHR ''p'')),
      b64encode = (\<lambda>b. b),
      resample = (\<lambda>im sz. Inr (replicate (fst sz * snd sz) 0)),
      chat_completions_create = (\<lambda>c req. Inr \<lparr>choices = [\<lparr>message = \<lparr>content = answer\<rparr>\<rparr>]\<rparr>),
      json_loads = example_loads\<rparr>"

text \<open>
  Degenerate libraries: whatever the image, its encoding is one character above the
  threshold, and resizing always succeeds.
\<close>

definition degenerate :: externals where
  "degenerate =
     \<lparr>png_bytes = (\<lambda>im. Inr []),
      b64encode = (\<lambda>b. replicate 20971521 CHR ''A''),
      resample = (\<lambda>im sz. Inr []),
      chat_completions_create = (\<lambda>c req. Inl (LibraryError ''unreachable'')),
      json_loads = (\<lambda>s. Inl (LibraryError ''unreachable''))\<rparr>"

section \<open>Properties\<close>

subsection \<open>How the primitives run\<close>

lemmas prog_defs = seq_def ret_def raise_def lift_def emit_def logger_info_def logger_error_def

lemmas example_defs = example_externals_def example_world_def example_agent_def
  small_image_def

lemmas json_defs = json_two_paragraphs_def json_string_value_def json_two_keys_def
  json_array_def json_empty_object_def

lemma encode_image_eq:
  "encode_image X img w =
     (map_sum id (b64encode X) (png_bytes X (heap w img)), w\<lparr>trace := trace w @ [Save img]\<rparr>)"
  by (simp add: encode_image_def image_save_def prog_defs split: sum.splits)

lemma resize_step_ok:
  assumes "resample X (heap w img) (scaled (width (heap w img)), scaled (height (heap w img)))
             = Inr px"
    and "png_bytes X \<lparr>width = scaled (width (heap w img)),
                      height = scaled (height (heap w img)), pixels = px\<rparr> = Inr buf"
  shows "resize_step X img enc w =
     (Inr (next_ref w, b64encode X buf),
      w\<lparr>heap := (heap w)(next_ref w := \<lparr>width = scaled (width (heap w img)),
                                         height = scaled (height (heap w img)), pixels = px\<rparr>),
        next_ref := Suc (next_ref w),
        trace := trace w @ [Log (Info_Image_size (length enc)), Log Info_Resizing,
                   Resize img (scaled (width (heap w img)), scaled (height (heap w img))),
                   Save (next_ref w)]\<rparr>)"
  using assms
  by (simp add: resize_step_def image_resize_def encode_image_eq prog_defs)

lemma resize_step_frame:
  assumes "resize_step X img enc w = (r, w')"
  shows "next_ref w \<le> next_ref w' \<and> (\<forall>a < next_ref w. heap w' a = heap w a)"
  using assms
  by (auto simp: resize_step_def image_resize_def encode_image_eq prog_defs split: sum.splits)

lemma resize_step_fresh:
  assumes "resize_step X img enc w = (Inr (img', enc'), w')"
  shows "img' = next_ref w"
  using assms
  by (auto simp: resize_step_def image_resize_def encode_image_eq prog_defs split: sum.splits)

subsection \<open>The loop\<close>

lemma resize_while_fits:
  "\<not> too_large enc \<Longrightarrow> resize_while X img enc w = Some (Inr (img, enc), w)"
  by (subst resize_while.simps) simp

lemma resize_while_step:
  "too_large enc \<Longrightarrow> resize_step X img enc w = (Inr (img', enc'), w') \<Longrightarrow>
     resize_while X img enc w = resize_while X img' enc' w'"
  by (subst resize_while.simps) simp

lemma resize_while_raise:
  "too_large enc \<Longrightarrow> resize_step X img enc w = (Inl e, w') \<Longrightarrow>
     resize_while X img enc w = Some (Inl e, w')"
  by (subst resize_while.simps) simp

lemma resize_while_frame:
  assumes "resize_while X img enc w = Some y"
  shows "next_ref w \<le> next_ref (snd y) \<and> (\<forall>a < next_ref w. heap (snd y) a = heap w a)"
  using assms
proof (induction rule: resize_while.raw_induct[rotated 1, consumes 1, case_names step])
  case (step rw X img enc w y)
  show ?case
  proof (cases "too_large enc")
    case False
    with step(2) show ?thesis by auto
  next
    case True
    obtain r w1 where st: "resize_step X img enc w = (r, w1)"
      by (cases "resize_step X img enc w")
    note fr = resize_step_frame[OF st]
    show ?thesis
    proof (cases r)
      case (Inl e)
      with step(2) True st fr show ?thesis by auto
    next
      case (Inr p)
      obtain img' enc' where p: "p = (img', enc')" by (cases p)
      from step(2) True st Inr p have "rw X img' enc' w1 = Some y" by simp
      from step(1)[OF this] fr show ?thesis by auto
    qed
  qed
qed

lemma resize_while_result_fits:
  assumes "resize_while X img enc w = Some y"
  shows "\<forall>img' enc'. fst y = Inr (img', enc') \<longrightarrow> \<not> too_large enc'"
  using assms
proof (induction rule: resize_while.raw_induct[rotated 1, consumes 1, case_names step])
  case (step rw X img enc w y)
  show ?case
  proof (cases "too_large enc")
    case False
    with step(2) show ?thesis by auto
  next
    case True
    obtain r w1 where st: "resize_step X img enc w = (r, w1)"
      by (cases "resize_step X img enc w")
    show ?thesis
    proof (cases r)
      case (Inl e)
      with step(2) True st show ?thesis by auto
    next
      case (Inr p)
      obtain img' enc' where p: "p = (img', enc')" by (cases p)
      from step(2) True st Inr p have "rw X img' enc' w1 = Some y" by simp
      from step(1)[OF this] show ?thesis .
    qed
  qed
qed

lemma degenerate_step:
  "\<exists>img' enc' w'. resize_step degenerate img enc w = (Inr (img', enc'), w') \<and> too_large enc'"
  by (simp add: resize_step_ok degenerate_def too_large_def)

lemma resize_while_degenerate_aux:
  assumes "resize_while X img enc w = Some y"
  shows "\<not> (X = degenerate \<and> too_large enc)"
  using assms
proof (induction rule: resize_while.raw_induct[rotated 1, consumes 1, case_names step])
  case (step rw X img enc w y)
  show ?case
  proof
    assume a: "X = degenerate \<and> too_large enc"
    obtain img' enc' w' where st: "resize_step degenerate img enc w = (Inr (img', enc'), w')"
      and big: "too_large enc'"
      using degenerate_step by blast
    from step(2) a st have "rw degenerate img' enc' w' = Some y" by simp
    from step(1)[OF this] big show False by simp
  qed
qed

lemma resize_while_degenerate:
  "too_large enc \<Longrightarrow> resize_while degenerate img enc w = None"
  using resize_while_degenerate_aux[of degenerate img enc w]
  by (cases "resize_while degenerate img enc w") auto

lemma scaled_bounds: "4 * scaled n \<le> 3 * n \<and> 3 * n < 4 * scaled n + 4"
  by (simp add: scaled_def) presburger

lemma scaled_less: "0 < n \<Longrightarrow> scaled n < n"
  by (simp add: scaled_def)

subsection \<open>After the loop\<close>

lemma get_layout_reaches:
  assumes "fit_payload X img w = Some (Inr (img', enc), w1)"
    and "chat_completions_create X (client self) (layout_request self enc) = Inr response"
  shows "get_layout_from_image X self img l w =
     Some (read_paragraphs X response
       (w1\<lparr>trace := trace w1 @
          [Log (Info_Image_size (length enc)), Create (layout_request self enc),
           Log (Info_OpenAI_Response response)]\<rparr>))"
  using assms
  by (simp add: get_layout_from_image_def transcribe_def create_def prog_defs)

lemma read_paragraphs_no_content:
  assumes "choices response = c # cs"
    and "content (message c) = None \<or> content (message c) = Some ''''"
  shows "fst (read_paragraphs X response w) =
     Inl (ValueError ''Expected a dictionary object for the response content.'')"
  using assms
  by (auto simp: read_paragraphs_def index0_def falsy_def prog_defs)

lemma read_paragraphs_loaded:
  assumes "choices response = c # cs"
    and "content (message c) = Some s" and "s \<noteq> ''''"
    and "json_loads X s = Inr v"
  shows "fst (read_paragraphs X response w) =
     (if \<not> isinstance_dict v then
        Inl (ValueError ''Expected a dictionary object for the response content.'')
      else if length (dict_items v) > 1 then
        Inl (ValueError ''Expected a dictionary object with one key-value pair.'')
      else (case dict_items v of
              [] \<Rightarrow> Inl (ValueError
                      ''Error while extracting the paragraph list from the response content.'')
            | kv # _ \<Rightarrow> text_regions (snd kv)))"
  using assms
  by (auto simp: read_paragraphs_def index0_def falsy_def prog_defs split: list.splits)

lemma map_enumerate_nth:
  "map (\<lambda>(i, p). f i p) (List.enumerate 0 ps) = map (\<lambda>i. f i (ps ! i)) [0..<length ps]"
  by (rule nth_equalityI) (simp_all add: nth_enumerate_eq)

lemma text_regions_list:
  "text_regions (PList ps) =
     Inr (map (\<lambda>i. \<lparr>bbox = \<lparr>x1 = int i, y1 = int i, x2 = int i + 1, y2 = int i + 1\<rparr>,
                    para_text = ps ! i, source = OCR_GPT4O\<rparr>) [0..<length ps])"
  by (simp add: text_regions_def map_enumerate_nth)

lemma text_regions_str:
  "text_regions (PStr t) =
     Inr (map (\<lambda>i. \<lparr>bbox = \<lparr>x1 = int i, y1 = int i, x2 = int i + 1, y2 = int i + 1\<rparr>,
                    para_text = PStr [t ! i], source = OCR_GPT4O\<rparr>) [0..<length t])"
  by (simp add: text_regions_def map_enumerate_nth)

lemma text_regions_dict:
  "text_regions (PDict kvs) =
     Inr (map (\<lambda>i. \<lparr>bbox = \<lparr>x1 = int i, y1 = int i, x2 = int i + 1, y2 = int i + 1\<rparr>,
                    para_text = PStr (fst (kvs ! i)), source = OCR_GPT4O\<rparr>) [0..<length kvs])"
  by (simp add: text_regions_def map_enumerate_nth)

lemma text_regions_scalar:
  "text_regions PNone = Inl TypeError"
  "text_regions (PBool b) = Inl TypeError"
  "text_regions (PInt n) = Inl TypeError"
  "text_regions (PFloat f) = Inl TypeError"
  by (simp_all add: text_regions_def)

lemma read_paragraphs_image_ops:
  "filter is_image_op (trace (snd (read_paragraphs X response w))) = filter is_image_op (trace w)"
  by (auto simp: read_paragraphs_def index0_def prog_defs
      split: sum.splits list.splits option.splits)

lemma transcribe_image_ops:
  "filter is_image_op (trace (snd (transcribe X self enc w))) = filter is_image_op (trace w)"
  by (auto simp: transcribe_def create_def prog_defs read_paragraphs_image_ops split: sum.splits)

subsection \<open>What the store keeps\<close>

lemma get_text_frame:
  "heap (snd (get_text_from_image X self img l w)) = heap w
   \<and> next_ref (snd (get_text_from_image X self img l w)) = next_ref w"
  by (auto simp: get_text_from_image_def image_save_def create_def index0_def prog_defs Let_def
      split: sum.splits list.splits option.splits)

lemma read_paragraphs_frame:
  "heap (snd (read_paragraphs X response w)) = heap w
   \<and> next_ref (snd (read_paragraphs X response w)) = next_ref w"
  by (auto simp: read_paragraphs_def index0_def prog_defs
      split: sum.splits list.splits option.splits)

lemma transcribe_frame:
  "heap (snd (transcribe X self enc w)) = heap w
   \<and> next_ref (snd (transcribe X self enc w)) = next_ref w"
  by (auto simp: transcribe_def create_def prog_defs read_paragraphs_frame split: sum.splits)

lemma fit_payload_frame:
  assumes "fit_payload X img w = Some y"
  shows "next_ref w \<le> next_ref (snd y) \<and> (\<forall>a < next_ref w. heap (snd y) a = heap w a)"
proof (cases "png_bytes X (heap w img)")
  case (Inl e)
  with assms show ?thesis by (auto simp: fit_payload_def encode_image_eq)
next
  case (Inr buf)
  with assms have "resize_while X img (b64encode X buf) (w\<lparr>trace := trace w @ [Save img]\<rparr>) = Some y"
    by (simp add: fit_payload_def encode_image_eq)
  from resize_while_frame[OF this] show ?thesis by simp
qed

lemma get_layout_frame:
  assumes "get_layout_from_image X self img l w = Some y"
  shows "next_ref w \<le> next_ref (snd y) \<and> (\<forall>a < next_ref w. heap (snd y) a = heap w a)"
proof (cases "fit_payload X img w")
  case None
  with assms show ?thesis by (simp add: get_layout_from_image_def)
next
  case (Some z)
  note fr = fit_payload_frame[OF Some]
  obtain r w1 where z: "z = (r, w1)" by (cases z)
  show ?thesis
  proof (cases r)
    case (Inl e)
    with assms Some z fr show ?thesis by (auto simp: get_layout_from_image_def)
  next
    case (Inr p)
    obtain img' enc where p: "p = (img', enc)" by (cases p)
    from assms Some z Inr p have "y = transcribe X self enc w1"
      by (simp add: get_layout_from_image_def)
    with fr z show ?thesis by (simp add: transcribe_frame)
  qed
qed

lemma get_layout_elements_snd:
  "map_option snd (get_layout_elements_from_image X self img l w)
     = map_option snd (get_layout_from_image X self img l w)"
  by (simp add: get_layout_elements_from_image_def split: option.splits sum.splits prod.splits)

subsection \<open>The concrete inputs\<close>

lemma example_fit:
  "fit_payload (example_externals a) 0 (example_world small_image)
     = Some (Inr (0, replicate 4 CHR ''p''), (example_world small_image)\<lparr>trace := [Save 0]\<rparr>)"
  by (simp add: fit_payload_def encode_image_eq resize_while_fits too_large_def example_defs)

lemma example_create:
  "chat_completions_create (example_externals a) c req
     = Inr \<lparr>choices = [\<lparr>message = \<lparr>content = a\<rparr>\<rparr>]\<rparr>"
  by (simp add: example_externals_def)

lemma example_choices:
  "choices \<lparr>choices = [\<lparr>message = \<lparr>content = a\<rparr>\<rparr>]\<rparr> = \<lparr>message = \<lparr>content = a\<rparr>\<rparr> # []"
  by simp

lemma example_content: "content (message \<lparr>message = \<lparr>content = Some s\<rparr>\<rparr>) = Some s"
  by simp

lemma example_loads_values:
  "json_loads (example_externals a) json_two_paragraphs
     = Inr (PDict [(''paragraphs'', PList [PStr ''a'', PStr ''b''])])"
  "json_loads (example_externals a) json_string_value
     = Inr (PDict [(''paragraphs'', PStr ''ab'')])"
  "json_loads (example_externals a) json_two_keys
     = Inr (PDict [(''paragraphs'', PList [PStr ''a'']), (''notes'', PList [PStr ''b''])])"
  "json_loads (example_externals a) json_array = Inr (PList [PStr ''a'', PStr ''b''])"
  "json_loads (example_externals a) json_empty_object = Inr (PDict [])"
  by (simp_all add: example_externals_def example_loads_def json_defs)

lemma json_not_empty:
  "json_two_paragraphs \<noteq> ''''" "json_string_value \<noteq> ''''" "json_two_keys \<noteq> ''''"
  "json_array \<noteq> ''''" "json_empty_object \<noteq> ''''"
  by (simp_all add: json_defs)

lemma example_fit_big:
  "fit_payload (example_externals a) 0 (example_world big_image)
     = Some (Inr (1, replicate 14062500 CHR ''p''),
         (example_world big_image)
           \<lparr>heap := (heap (example_world big_image))(1 :=
                       \<lparr>width = 3750, height = 3750, pixels = replicate 14062500 0\<rparr>),
            next_ref := 2,
            trace := [Save 0, Log (Info_Image_size 25000000), Log Info_Resizing,
                      Resize 0 (3750, 3750), Save 1]\<rparr>)"
proof -
  let ?X = "example_externals a"
  let ?e0 = "replicate 25000000 CHR ''p''"
  let ?e1 = "replicate 14062500 CHR ''p''"
  let ?w1 = "(example_world big_image)\<lparr>trace := [Save 0]\<rparr>"
  have big: "too_large ?e0" and fits: "\<not> too_large ?e1" by (simp_all add: too_large_def)
  have "fit_payload ?X 0 (example_world big_image) = resize_while ?X 0 ?e0 ?w1"
    by (simp add: fit_payload_def encode_image_eq example_defs big_image_def)
  also have "\<dots> = resize_while ?X (next_ref ?w1) ?e1
        (?w1\<lparr>heap := (heap ?w1)(next_ref ?w1 :=
                   \<lparr>width = 3750, height = 3750, pixels = replicate 14062500 0\<rparr>),
             next_ref := Suc (next_ref ?w1),
             trace := trace ?w1 @ [Log (Info_Image_size (length ?e0)), Log Info_Resizing,
                      Resize 0 (3750, 3750), Save (next_ref ?w1)]\<rparr>)"
    using resize_step_ok[where X = ?X and w = ?w1 and img = 0 and enc = ?e0
        and px = "replicate 14062500 0" and buf = ?e1]
    by (intro resize_while_step[OF big]) (simp add: example_defs big_image_def scaled_def)
  also have "\<dots> = Some (Inr (next_ref ?w1, ?e1),
        (?w1\<lparr>heap := (heap ?w1)(next_ref ?w1 :=
                   \<lparr>width = 3750, height = 3750, pixels = replicate 14062500 0\<rparr>),
             next_ref := Suc (next_ref ?w1),
             trace := trace ?w1 @ [Log (Info_Image_size (length ?e0)), Log Info_Resizing,
                      Resize 0 (3750, 3750), Save (next_ref ?w1)]\<rparr>))"
    by (rule resize_while_fits[OF fits])
  finally show ?thesis by (simp add: example_defs big_image_def numeral_2_eq_2)
qed

lemma example_two_paragraphs_run:
  "\<exists>w'. get_layout_from_image (example_externals (Some json_two_paragraphs)) example_agent 0
       ''eng'' (example_world small_image)
     = Some (Inr [\<lparr>bbox = \<lparr>x1 = 0, y1 = 0, x2 = 1, y2 = 1\<rparr>, para_text = PStr ''a'',
                    source = OCR_GPT4O\<rparr>,
                  \<lparr>bbox = \<lparr>x1 = 1, y1 = 1, x2 = 2, y2 = 2\<rparr>, para_text = PStr ''b'',
                    source = OCR_GPT4O\<rparr>], w')"
  by (simp add: get_layout_from_image_def example_fit transcribe_def create_def
      read_paragraphs_def index0_def falsy_def prog_defs example_create example_loads_values
      json_not_empty text_regions_def enumerate_eq_zip upt_rec)

subsection \<open>C1: a response with no content\<close>

text \<open>
  Claim C1. When the content of the response is \<^verbatim>\<open>None\<close> or the empty string,
  \<open>get_text_from_image\<close> returns the empty string. \<open>get_layout_from_image\<close> does not
  return the empty list: line 118 replaces the missing content by the empty list, and
  line 121 rejects it, since a list is not a dict, with the \<^verbatim>\<open>ValueError\<close>
  "Expected a dictionary object for the response content.".
\<close>

theorem empty_content_text_ok_layout_raises:
  "(png_bytes X (heap w img) = Inr buf
      \<and> chat_completions_create X (client self) (text_request self (b64encode X buf))
          = Inr response
      \<and> choices response = c # cs
      \<and> (content (message c) = None \<or> content (message c) = Some '''')
     \<longrightarrow> fst (get_text_from_image X self img l w) = Inr '''')
   \<and> (fit_payload X img w = Some (Inr (img', enc), w1)
      \<and> chat_completions_create X (client self) (layout_request self enc) = Inr response'
      \<and> choices response' = c' # cs'
      \<and> (content (message c') = None \<or> content (message c') = Some '''')
     \<longrightarrow> map_option fst (get_layout_from_image X self img l w)
          = Some (Inl (ValueError ''Expected a dictionary object for the response content.'')))"
proof (intro conjI impI)
  assume "png_bytes X (heap w img) = Inr buf
      \<and> chat_completions_create X (client self) (text_request self (b64encode X buf))
          = Inr response
      \<and> choices response = c # cs
      \<and> (content (message c) = None \<or> content (message c) = Some '''')"
  then show "fst (get_text_from_image X self img l w) = Inr ''''"
    by (auto simp: get_text_from_image_def image_save_def create_def index0_def falsy_def
        prog_defs)
next
  assume a: "fit_payload X img w = Some (Inr (img', enc), w1)
      \<and> chat_completions_create X (client self) (layout_request self enc) = Inr response'
      \<and> choices response' = c' # cs'
      \<and> (content (message c') = None \<or> content (message c') = Some '''')"
  then have "get_layout_from_image X self img l w =
     Some (read_paragraphs X response'
       (w1\<lparr>trace := trace w1 @
          [Log (Info_Image_size (length enc)), Create (layout_request self enc),
           Log (Info_OpenAI_Response response')]\<rparr>))"
    by (intro get_layout_reaches) simp_all
  with a show "map_option fst (get_layout_from_image X self img l w)
          = Some (Inl (ValueError ''Expected a dictionary object for the response content.''))"
    by (simp add: read_paragraphs_no_content)
qed

theorem empty_content_text_ok_layout_raises_witness:
  "fst (get_text_from_image (example_externals None) example_agent 0 ''eng''
         (example_world small_image)) = Inr ''''
   \<and> map_option fst (get_layout_from_image (example_externals None) example_agent 0 ''eng''
         (example_world small_image))
       = Some (Inl (ValueError ''Expected a dictionary object for the response content.''))
   \<and> map_option fst (get_layout_from_image (example_externals (Some '''')) example_agent 0 ''eng''
         (example_world small_image))
       = Some (Inl (ValueError ''Expected a dictionary object for the response content.''))"
proof -
  let ?w = "example_world small_image"
  let ?p = "replicate 4 CHR ''p''"
  have t: "png_bytes (example_externals None) (heap ?w 0) = Inr ?p
      \<and> chat_completions_create (example_externals None) (client example_agent)
            (text_request example_agent (b64encode (example_externals None) ?p))
          = Inr \<lparr>choices = [\<lparr>message = \<lparr>content = None\<rparr>\<rparr>]\<rparr>
      \<and> choices \<lparr>choices = [\<lparr>message = \<lparr>content = None\<rparr>\<rparr>]\<rparr>
          = \<lparr>message = \<lparr>content = None\<rparr>\<rparr> # []
      \<and> (content (message \<lparr>message = \<lparr>content = None\<rparr>\<rparr>) = None
         \<or> content (message \<lparr>message = \<lparr>content = None\<rparr>\<rparr>) = Some '''')"
    by (simp add: example_defs)
  have l: "fit_payload (example_externals a) 0 ?w = Some (Inr (0, ?p), ?w\<lparr>trace := [Save 0]\<rparr>)
      \<and> chat_completions_create (example_externals a) (client example_agent)
            (layout_request example_agent ?p)
          = Inr \<lparr>choices = [\<lparr>message = \<lparr>content = a\<rparr>\<rparr>]\<rparr>
      \<and> choices \<lparr>choices = [\<lparr>message = \<lparr>content = a\<rparr>\<rparr>]\<rparr>
          = \<lparr>message = \<lparr>content = a\<rparr>\<rparr> # []
      \<and> (content (message \<lparr>message = \<lparr>content = a\<rparr>\<rparr>) = None
         \<or> content (message \<lparr>message = \<lparr>content = a\<rparr>\<rparr>) = Some '''')"
    if "a = None \<or> a = Some ''''" for a
    using that by (auto simp: example_fit example_create)
  show ?thesis
    using empty_content_text_ok_layout_raises[THEN conjunct1, THEN mp, OF t, of "''eng''"]
      empty_content_text_ok_layout_raises[THEN conjunct2, THEN mp, OF l, of None "''eng''"]
      empty_content_text_ok_layout_raises[THEN conjunct2, THEN mp, OF l, of "Some ''''" "''eng''"]
    by simp
qed

subsection \<open>C2: one key whose value is not a list\<close>

text \<open>
  Claim C2, as amended. When the content parses to a dict with one item whose value is
  not a list, \<open>get_layout_from_image\<close> raises no \<^verbatim>\<open>ValueError\<close>: the value is
  enumerated as it is. A string gives one region per character, a dict one region per
  key, and \<^verbatim>\<open>None\<close>, a boolean or a number is not iterable, so the comprehension
  raises \<^verbatim>\<open>TypeError\<close>, outside the \<^verbatim>\<open>try\<close> of lines 127 to 132.
\<close>

theorem sole_value_not_a_list:
  assumes "fit_payload X img w = Some (Inr (img', enc), w1)"
    and "chat_completions_create X (client self) (layout_request self enc) = Inr response"
    and "choices response = c # cs"
    and "content (message c) = Some s" and "s \<noteq> ''''"
    and "json_loads X s = Inr (PDict [(k, v)])"
  shows "(v = PStr t \<longrightarrow>
           map_option fst (get_layout_from_image X self img l w)
             = Some (Inr (map (\<lambda>i. \<lparr>bbox = \<lparr>x1 = int i, y1 = int i,
                                              x2 = int i + 1, y2 = int i + 1\<rparr>,
                                    para_text = PStr [t ! i], source = OCR_GPT4O\<rparr>)
                           [0..<length t])))
       \<and> (v = PDict kvs \<longrightarrow>
           map_option fst (get_layout_from_image X self img l w)
             = Some (Inr (map (\<lambda>i. \<lparr>bbox = \<lparr>x1 = int i, y1 = int i,
                                              x2 = int i + 1, y2 = int i + 1\<rparr>,
                                    para_text = PStr (fst (kvs ! i)), source = OCR_GPT4O\<rparr>)
                           [0..<length kvs])))
       \<and> (v = PNone \<or> v = PBool b \<or> v = PInt n \<or> v = PFloat f \<longrightarrow>
           map_option fst (get_layout_from_image X self img l w) = Some (Inl TypeError))
       \<and> ((\<forall>ps. v \<noteq> PList ps) \<longrightarrow>
           map_option fst (get_layout_from_image X self img l w)
             \<noteq> Some (Inl (ValueError msg)))"
proof -
  have r: "map_option fst (get_layout_from_image X self img l w) = Some (text_regions v)"
    by (simp add: get_layout_reaches[OF assms(1,2)] read_paragraphs_loaded[OF assms(3-6)])
  show ?thesis
    unfolding r
    by (cases v) (simp_all add: text_regions_str text_regions_dict text_regions_scalar)
qed

theorem sole_value_not_a_list_witness:
  "map_option fst (get_layout_from_image (example_externals (Some json_string_value))
       example_agent 0 ''eng'' (example_world small_image))
     = Some (Inr [\<lparr>bbox = \<lparr>x1 = 0, y1 = 0, x2 = 1, y2 = 1\<rparr>, para_text = PStr ''a'',
                    source = OCR_GPT4O\<rparr>,
                  \<lparr>bbox = \<lparr>x1 = 1, y1 = 1, x2 = 2, y2 = 2\<rparr>, para_text = PStr ''b'',
                    source = OCR_GPT4O\<rparr>])
   \<and> map_option fst (get_layout_from_image (example_externals (Some json_string_value))
       example_agent 0 ''eng'' (example_world small_image))
     \<noteq> Some (Inl (ValueError
          ''Error while extracting the paragraph list from the response content.''))"
  using sole_value_not_a_list[OF example_fit example_create example_choices example_content
      json_not_empty(2) example_loads_values(2),
      where self = example_agent and l = "''eng''" and t = "''ab''"]
  by (simp add: upt_rec)

text \<open>
  The claim as stated fails: for the content \<^verbatim>\<open>{"paragraphs": "ab"}\<close> the function
  returns two regions.
\<close>

theorem string_value_counterexample:
  "map_option fst (get_layout_from_image (example_externals (Some json_string_value))
       example_agent 0 ''eng'' (example_world small_image))
     = Some (Inr [\<lparr>bbox = \<lparr>x1 = 0, y1 = 0, x2 = 1, y2 = 1\<rparr>, para_text = PStr ''a'',
                    source = OCR_GPT4O\<rparr>,
                  \<lparr>bbox = \<lparr>x1 = 1, y1 = 1, x2 = 2, y2 = 2\<rparr>, para_text = PStr ''b'',
                    source = OCR_GPT4O\<rparr>])"
  by (simp add: get_layout_from_image_def example_fit transcribe_def create_def
      read_paragraphs_def index0_def falsy_def prog_defs example_create example_loads_values
      json_not_empty text_regions_def enumerate_eq_zip upt_rec)

subsection \<open>C3: more than one key, or not an object\<close>

text \<open>
  Claim C3. When the content parses to a dict with more than one item,
  \<open>get_layout_from_image\<close> raises the \<^verbatim>\<open>ValueError\<close> of line 126; when it parses
  to a value that is not a dict, the \<^verbatim>\<open>ValueError\<close> of line 123. In both cases the
  result is the exception, so no region is returned.
\<close>

theorem more_than_one_key_raises:
  assumes "fit_payload X img w = Some (Inr (img', enc), w1)"
    and "chat_completions_create X (client self) (layout_request self enc) = Inr response"
    and "choices response = c # cs"
    and "content (message c) = Some s" and "s \<noteq> ''''"
    and "json_loads X s = Inr v"
  shows "(isinstance_dict v \<and> length (dict_items v) > 1 \<longrightarrow>
           map_option fst (get_layout_from_image X self img l w)
             = Some (Inl (ValueError ''Expected a dictionary object with one key-value pair.'')))
       \<and> (\<not> isinstance_dict v \<longrightarrow>
           map_option fst (get_layout_from_image X self img l w)
             = Some (Inl (ValueError ''Expected a dictionary object for the response content.'')))"
  by (simp add: get_layout_reaches[OF assms(1,2)] read_paragraphs_loaded[OF assms(3-6)])

theorem more_than_one_key_raises_witness:
  "map_option fst (get_layout_from_image (example_externals (Some json_two_keys))
       example_agent 0 ''eng'' (example_world small_image))
     = Some (Inl (ValueError ''Expected a dictionary object with one key-value pair.''))
   \<and> map_option fst (get_layout_from_image (example_externals (Some json_array))
       example_agent 0 ''eng'' (example_world small_image))
     = Some (Inl (ValueError ''Expected a dictionary object for the response content.''))"
  using more_than_one_key_raises[OF example_fit example_create example_choices example_content
      json_not_empty(3) example_loads_values(3), of example_agent "''eng''"]
    more_than_one_key_raises[OF example_fit example_create example_choices example_content
      json_not_empty(4) example_loads_values(4), of example_agent "''eng''"]
  by simp

subsection \<open>C4: the size check and the downscaling loop\<close>

text \<open>
  Claim C4. In \<open>get_layout_from_image\<close>, an image whose base64 PNG is at or below
  20 MiB is encoded exactly once and never resized: the payload phase returns the
  caller's image and its encoding, and the one save is the only image operation of
  the whole call. For a payload above the threshold, one turn of the loop resizes the
  current image to \<open>(scaled width, scaled height)\<close>, where \<open>scaled n\<close> is \<open>0.75 * n\<close>
  rounded down (strictly below \<open>n\<close> for every positive \<open>n\<close>), encodes the new image
  and goes on with it. The loop returns as soon as the payload is at or below the
  threshold, and what it returns is never above it. It has no iteration cap: on the
  degenerate libraries, whose every encoding is too large, neither the loop nor
  \<open>get_layout_from_image\<close> ever returns.
\<close>

theorem resize_until_fits:
  "(png_bytes X (heap w img) = Inr buf \<and> \<not> too_large (b64encode X buf) \<longrightarrow>
      fit_payload X img w
        = Some (Inr (img, b64encode X buf), w\<lparr>trace := trace w @ [Save img]\<rparr>)
      \<and> (\<exists>y. get_layout_from_image X self img l w = Some y
            \<and> filter is_image_op (trace (snd y)) = filter is_image_op (trace w) @ [Save img]))
   \<and> (too_large enc
        \<and> resample X (heap w img) (scaled (width (heap w img)), scaled (height (heap w img)))
            = Inr px
        \<and> png_bytes X \<lparr>width = scaled (width (heap w img)),
                        height = scaled (height (heap w img)), pixels = px\<rparr> = Inr buf' \<longrightarrow>
      resize_while X img enc w
        = resize_while X (next_ref w) (b64encode X buf')
            (w\<lparr>heap := (heap w)(next_ref w :=
                   \<lparr>width = scaled (width (heap w img)),
                    height = scaled (height (heap w img)), pixels = px\<rparr>),
               next_ref := Suc (next_ref w),
               trace := trace w @
                 [Log (Info_Image_size (length enc)), Log Info_Resizing,
                  Resize img (scaled (width (heap w img)), scaled (height (heap w img))),
                  Save (next_ref w)]\<rparr>))
   \<and> (4 * scaled n \<le> 3 * n \<and> 3 * n < 4 * scaled n + 4 \<and> (0 < n \<longrightarrow> scaled n < n))
   \<and> (\<not> too_large enc \<longrightarrow> resize_while X img enc w = Some (Inr (img, enc), w))
   \<and> (resize_while X img enc w = Some (Inr (img', enc'), w') \<longrightarrow> \<not> too_large enc')
   \<and> (too_large enc \<longrightarrow> resize_while degenerate img enc w = None)
   \<and> get_layout_from_image degenerate self img l w = None"
proof (intro conjI impI)
  assume a: "png_bytes X (heap w img) = Inr buf \<and> \<not> too_large (b64encode X buf)"
  then show fit: "fit_payload X img w
        = Some (Inr (img, b64encode X buf), w\<lparr>trace := trace w @ [Save img]\<rparr>)"
    by (simp add: fit_payload_def encode_image_eq resize_while_fits)
  show "\<exists>y. get_layout_from_image X self img l w = Some y
            \<and> filter is_image_op (trace (snd y)) = filter is_image_op (trace w) @ [Save img]"
    by (simp add: get_layout_from_image_def fit transcribe_image_ops)
next
  assume a: "too_large enc
        \<and> resample X (heap w img) (scaled (width (heap w img)), scaled (height (heap w img)))
            = Inr px
        \<and> png_bytes X \<lparr>width = scaled (width (heap w img)),
                        height = scaled (height (heap w img)), pixels = px\<rparr> = Inr buf'"
  then have big: "too_large enc" by simp
  from a show "resize_while X img enc w
        = resize_while X (next_ref w) (b64encode X buf')
            (w\<lparr>heap := (heap w)(next_ref w :=
                   \<lparr>width = scaled (width (heap w img)),
                    height = scaled (height (heap w img)), pixels = px\<rparr>),
               next_ref := Suc (next_ref w),
               trace := trace w @
                 [Log (Info_Image_size (length enc)), Log Info_Resizing,
                  Resize img (scaled (width (heap w img)), scaled (height (heap w img))),
                  Save (next_ref w)]\<rparr>)"
    by (intro resize_while_step[OF big] resize_step_ok) simp_all
next
  show "4 * scaled n \<le> 3 * n" using scaled_bounds[of n] by simp
  show "3 * n < 4 * scaled n + 4" using scaled_bounds[of n] by simp
  show "scaled n < n" if "0 < n" using that by (rule scaled_less)
next
  show "resize_while X img enc w = Some (Inr (img, enc), w)" if "\<not> too_large enc"
    using that by (rule resize_while_fits)
next
  show "\<not> too_large enc'" if "resize_while X img enc w = Some (Inr (img', enc'), w')"
    using resize_while_result_fits[OF that] by simp
next
  show "resize_while degenerate img enc w = None" if "too_large enc"
    using that by (rule resize_while_degenerate)
next
  have png: "png_bytes degenerate (heap w img) = Inr []"
    by (simp add: degenerate_def)
  have "too_large (b64encode degenerate [])"
    by (simp add: degenerate_def too_large_def)
  then have "fit_payload degenerate img w = None"
    by (simp add: fit_payload_def encode_image_eq png resize_while_degenerate)
  then show "get_layout_from_image degenerate self img l w = None"
    by (simp add: get_layout_from_image_def)
qed

theorem resize_until_fits_witness:
  "fit_payload (example_externals None) 0 (example_world small_image)
     = Some (Inr (0, replicate 4 CHR ''p''), (example_world small_image)\<lparr>trace := [Save 0]\<rparr>)
   \<and> map_option (filter is_image_op \<circ> trace \<circ> snd)
       (get_layout_from_image (example_externals None) example_agent 0 ''eng''
          (example_world small_image))
     = Some [Save 0]
   \<and> map_option fst (fit_payload (example_externals None) 0 (example_world big_image))
     = Some (Inr (1, replicate 14062500 CHR ''p''))
   \<and> map_option (trace \<circ> snd) (fit_payload (example_externals None) 0 (example_world big_image))
     = Some [Save 0, Log (Info_Image_size 25000000), Log Info_Resizing,
             Resize 0 (3750, 3750), Save 1]
   \<and> scaled 5000 < 5000"
proof -
  let ?X = "example_externals None"
  let ?w0 = "example_world small_image"
  let ?e0 = "replicate 25000000 CHR ''p''"
  let ?e1 = "replicate 14062500 CHR ''p''"
  let ?w1 = "(example_world big_image)\<lparr>trace := [Save 0]\<rparr>"
  let ?w2 = "(example_world big_image)
       \<lparr>heap := (heap (example_world big_image))(1 :=
                   \<lparr>width = 3750, height = 3750, pixels = replicate 14062500 0\<rparr>),
        next_ref := Suc (Suc 0),
        trace := [Save 0, Log (Info_Image_size 25000000), Log Info_Resizing,
                  Resize 0 (3750, 3750), Save 1]\<rparr>"
  have small: "png_bytes ?X (heap ?w0 0) = Inr (replicate 4 CHR ''p'')
      \<and> \<not> too_large (b64encode ?X (replicate 4 CHR ''p''))"
    by (simp add: example_defs big_image_def too_large_def)
  note S = resize_until_fits[where X = ?X and w = ?w0 and img = 0
        and buf = "replicate 4 CHR ''p''" and self = example_agent and l = "''eng''",
        THEN conjunct1, THEN mp, OF small]
  have A: "fit_payload ?X 0 ?w0 = Some (Inr (0, replicate 4 CHR ''p''), ?w0\<lparr>trace := [Save 0]\<rparr>)"
    using S by (simp add: example_defs big_image_def)
  have A': "map_option (filter is_image_op \<circ> trace \<circ> snd)
       (get_layout_from_image ?X example_agent 0 ''eng'' ?w0) = Some [Save 0]"
    using S by (auto simp: example_defs big_image_def)
  have big: "too_large ?e0
      \<and> resample ?X (heap ?w1 0) (scaled (width (heap ?w1 0)), scaled (height (heap ?w1 0)))
          = Inr (replicate 14062500 0)
      \<and> png_bytes ?X \<lparr>width = scaled (width (heap ?w1 0)),
                       height = scaled (height (heap ?w1 0)),
                       pixels = replicate 14062500 0\<rparr> = Inr ?e1"
    by (simp add: example_defs big_image_def too_large_def scaled_def)
  have B: "resize_while ?X 0 ?e0 ?w1 = resize_while ?X 1 ?e1 ?w2"
    using resize_until_fits[where X = ?X and w = ?w1 and img = 0 and enc = ?e0
        and px = "replicate 14062500 0" and buf' = ?e1,
        THEN conjunct2, THEN conjunct1, THEN mp, OF big]
    by (simp add: example_defs big_image_def scaled_def)
  have fits: "\<not> too_large ?e1" by (simp add: too_large_def)
  have C: "resize_while ?X 1 ?e1 ?w2 = Some (Inr (1, ?e1), ?w2)"
    using resize_until_fits[where X = ?X and w = ?w2 and img = 1 and enc = ?e1,
        THEN conjunct2, THEN conjunct2, THEN conjunct2, THEN conjunct1, THEN mp, OF fits] .
  have "fit_payload ?X 0 (example_world big_image) = resize_while ?X 0 ?e0 ?w1"
    by (simp add: fit_payload_def encode_image_eq example_defs big_image_def)
  also note B
  also note C
  finally have D: "fit_payload ?X 0 (example_world big_image) = Some (Inr (1, ?e1), ?w2)" .
  have E: "scaled 5000 < 5000"
    using resize_until_fits[where n = 5000, THEN conjunct2, THEN conjunct2, THEN conjunct1]
    by simp
  show ?thesis using A A' D E by (simp add: example_defs big_image_def)
qed

subsection \<open>C5: one key and a list of paragraphs\<close>

text \<open>
  Claim C5. When the content parses to a dict with one item whose value is a list of
  \<open>n\<close> paragraphs, \<open>get_layout_from_image\<close> returns \<open>n\<close> regions in the order of the
  list: the region at index \<open>i\<close> has the text of paragraph \<open>i\<close>, the unit square
  from \<open>(i, i)\<close> to \<open>(i + 1, i + 1)\<close> as its bbox, and the source \<open>OCR_GPT4O\<close>.
  For the list \<^verbatim>\<open>["a", "b"]\<close> these are two regions, with texts "a" then "b".
\<close>

theorem one_key_list_gives_regions:
  assumes "fit_payload X img w = Some (Inr (img', enc), w1)"
    and "chat_completions_create X (client self) (layout_request self enc) = Inr response"
    and "choices response = c # cs"
    and "content (message c) = Some s" and "s \<noteq> ''''"
    and "json_loads X s = Inr (PDict [(k, PList ps)])"
  shows "map_option fst (get_layout_from_image X self img l w)
     = Some (Inr (map (\<lambda>i. \<lparr>bbox = \<lparr>x1 = int i, y1 = int i, x2 = int i + 1, y2 = int i + 1\<rparr>,
                            para_text = ps ! i, source = OCR_GPT4O\<rparr>) [0..<length ps]))"
  by (simp add: get_layout_reaches[OF assms(1,2)] read_paragraphs_loaded[OF assms(3-6)]
      text_regions_list)

theorem one_key_list_gives_regions_witness:
  "map_option fst (get_layout_from_image (example_externals (Some json_two_paragraphs))
       example_agent 0 ''eng'' (example_world small_image))
     = Some (Inr [\<lparr>bbox = \<lparr>x1 = 0, y1 = 0, x2 = 1, y2 = 1\<rparr>, para_text = PStr ''a'',
                    source = OCR_GPT4O\<rparr>,
                  \<lparr>bbox = \<lparr>x1 = 1, y1 = 1, x2 = 2, y2 = 2\<rparr>, para_text = PStr ''b'',
                    source = OCR_GPT4O\<rparr>])"
  using one_key_list_gives_regions[OF example_fit example_create example_choices example_content
      json_not_empty(1) example_loads_values(1), of example_agent "''eng''"]
  by (simp add: upt_rec)

subsection \<open>C6: layout elements\<close>

text \<open>
  Claim C6. When \<open>get_layout_from_image\<close> returns regions,
  \<open>get_layout_elements_from_image\<close> returns one element per region, in the same order,
  each of type \<open>UNCATEGORIZED_TEXT\<close> and with the bbox, text and source of its region.
  It adds no check of its own: it raises exactly when \<open>get_layout_from_image\<close> does,
  with the same exception, and does not return when that does not.
\<close>

theorem layout_elements_map_regions:
  "(get_layout_from_image X self img l w = Some (Inr regions, w') \<longrightarrow>
      (\<exists>elements.
         get_layout_elements_from_image X self img l w = Some (Inr elements, w')
         \<and> elements = map (\<lambda>r. \<lparr>el_bbox = bbox r, el_text = para_text r,
                                  el_source = source r, el_type = UNCATEGORIZED_TEXT\<rparr>) regions
         \<and> length elements = length regions
         \<and> (\<forall>i < length regions.
               el_type (elements ! i) = UNCATEGORIZED_TEXT
               \<and> el_bbox (elements ! i) = bbox (regions ! i)
               \<and> el_text (elements ! i) = para_text (regions ! i)
               \<and> el_source (elements ! i) = source (regions ! i))))
   \<and> (get_layout_from_image X self img l w = Some (Inl e, w') \<longrightarrow>
        get_layout_elements_from_image X self img l w = Some (Inl e, w'))
   \<and> (get_layout_from_image X self img l w = None \<longrightarrow>
        get_layout_elements_from_image X self img l w = None)"
  by (simp add: get_layout_elements_from_image_def build_layout_element_def)

theorem layout_elements_map_regions_witness:
  "map_option fst (get_layout_elements_from_image (example_externals (Some json_two_paragraphs))
       example_agent 0 ''eng'' (example_world small_image))
     = Some (Inr [\<lparr>el_bbox = \<lparr>x1 = 0, y1 = 0, x2 = 1, y2 = 1\<rparr>, el_text = PStr ''a'',
                    el_source = OCR_GPT4O, el_type = UNCATEGORIZED_TEXT\<rparr>,
                  \<lparr>el_bbox = \<lparr>x1 = 1, y1 = 1, x2 = 2, y2 = 2\<rparr>, el_text = PStr ''b'',
                    el_source = OCR_GPT4O, el_type = UNCATEGORIZED_TEXT\<rparr>])
   \<and> map_option fst (get_layout_elements_from_image (example_externals (Some json_two_keys))
       example_agent 0 ''eng'' (example_world small_image))
     = Some (Inl (ValueError ''Expected a dictionary object with one key-value pair.''))"
proof -
  let ?r = "[\<lparr>bbox = \<lparr>x1 = 0, y1 = 0, x2 = 1, y2 = 1\<rparr>, para_text = PStr ''a'',
               source = OCR_GPT4O\<rparr>,
             \<lparr>bbox = \<lparr>x1 = 1, y1 = 1, x2 = 2, y2 = 2\<rparr>, para_text = PStr ''b'',
               source = OCR_GPT4O\<rparr>]"
  obtain w' where run: "get_layout_from_image (example_externals (Some json_two_paragraphs))
      example_agent 0 ''eng'' (example_world small_image) = Some (Inr ?r, w')"
    using example_two_paragraphs_run by blast
  obtain w'' where err: "get_layout_from_image (example_externals (Some json_two_keys))
      example_agent 0 ''eng'' (example_world small_image)
      = Some (Inl (ValueError ''Expected a dictionary object with one key-value pair.''), w'')"
    by (simp add: get_layout_from_image_def example_fit transcribe_def create_def
      read_paragraphs_def index0_def falsy_def prog_defs example_create example_loads_values
      json_not_empty)
  show ?thesis
    using layout_elements_map_regions[THEN conjunct1, THEN mp, OF run]
      layout_elements_map_regions[THEN conjunct2, THEN conjunct1, THEN mp, OF err]
    by auto
qed

subsection \<open>C7: the credential\<close>

text \<open>
  Claim C7. When \<^verbatim>\<open>OPENAI_API_KEY\<close> is unset or empty, \<open>init\<close> raises the
  \<^verbatim>\<open>AssertionError\<close> of line 32 and leaves the world as it found it: no request has
  been sent. An agent is only ever built from a key that is set and not empty, and
  construction never adds an event to the trace.
\<close>

theorem init_requires_api_key:
  "(environ w ''OPENAI_API_KEY'' = None \<or> environ w ''OPENAI_API_KEY'' = Some '''' \<longrightarrow>
      init w = (Inl (AssertionError
        ''Please set the OPENAI_API_KEY environment variable to use the OpenAI API.''), w))
   \<and> (fst (init w) = Inr agent \<longrightarrow>
        (\<exists>k. environ w ''OPENAI_API_KEY'' = Some k \<and> k \<noteq> ''''
           \<and> agent = \<lparr>model = ''gpt-4o'', client = \<lparr>api_key = k\<rparr>\<rparr>))
   \<and> trace (snd (init w)) = trace w"
  by (auto simp: init_def split: option.splits if_splits)

theorem init_requires_api_key_witness:
  "init ((example_world small_image)\<lparr>environ := Map.empty\<rparr>)
     = (Inl (AssertionError
          ''Please set the OPENAI_API_KEY environment variable to use the OpenAI API.''),
        (example_world small_image)\<lparr>environ := Map.empty\<rparr>)
   \<and> init ((example_world small_image)\<lparr>environ := [''OPENAI_API_KEY'' \<mapsto> '''']\<rparr>)
     = (Inl (AssertionError
          ''Please set the OPENAI_API_KEY environment variable to use the OpenAI API.''),
        (example_world small_image)\<lparr>environ := [''OPENAI_API_KEY'' \<mapsto> '''']\<rparr>)
   \<and> environ (example_world small_image) ''OPENAI_API_KEY'' = Some ''sk-example''"
proof -
  have unset: "environ ((example_world small_image)\<lparr>environ := Map.empty\<rparr>) ''OPENAI_API_KEY''
        = None
      \<or> environ ((example_world small_image)\<lparr>environ := Map.empty\<rparr>) ''OPENAI_API_KEY''
        = Some ''''"
    by simp
  have empty: "environ ((example_world small_image)\<lparr>environ := [''OPENAI_API_KEY'' \<mapsto> '''']\<rparr>)
          ''OPENAI_API_KEY'' = None
      \<or> environ ((example_world small_image)\<lparr>environ := [''OPENAI_API_KEY'' \<mapsto> '''']\<rparr>)
          ''OPENAI_API_KEY'' = Some ''''"
    by simp
  have built: "fst (init (example_world small_image)) = Inr example_agent"
    by (simp add: init_def example_defs)
  show ?thesis
    using init_requires_api_key[THEN conjunct1, THEN mp, OF unset]
      init_requires_api_key[THEN conjunct1, THEN mp, OF empty]
      init_requires_api_key[THEN conjunct2, THEN conjunct1, THEN mp, OF built]
    by (auto simp: example_agent_def)
qed

subsection \<open>C8: the language hint\<close>

text \<open>
  Claim C8. The three extraction operations do not depend on \<open>ocr_languages\<close>: for any
  two hints they are the same function of the world, so they return the same result,
  send the same request and leave the same trace.
\<close>

theorem ocr_languages_unused:
  "get_text_from_image X self img l1 = get_text_from_image X self img l2
   \<and> get_layout_from_image X self img l1 = get_layout_from_image X self img l2
   \<and> get_layout_elements_from_image X self img l1
       = get_layout_elements_from_image X self img l2"
  by (simp add: get_text_from_image_def get_layout_from_image_def
      get_layout_elements_from_image_def fun_eq_iff)

subsection \<open>C9: the caller's image\<close>

text \<open>
  Claim C9. No extraction operation changes an object of the store that existed when
  it was called, the caller's image among them: \<open>get_text_from_image\<close> leaves the store
  as it is, and after \<open>get_layout_from_image\<close> or \<open>get_layout_elements_from_image\<close>
  returns, every object allocated before the call has the width, height and pixels it
  had. One turn of the loop allocates the resized image at a fresh reference, to which
  the local variable is rebound, and leaves the image it resized untouched.
\<close>

theorem caller_image_not_mutated:
  "(a < next_ref w \<longrightarrow> heap (snd (get_text_from_image X self img l w)) a = heap w a)
   \<and> (get_layout_from_image X self img l w = Some y \<and> a < next_ref w
        \<longrightarrow> heap (snd y) a = heap w a)
   \<and> (get_layout_elements_from_image X self img l w = Some y' \<and> a < next_ref w
        \<longrightarrow> heap (snd y') a = heap w a)
   \<and> (resize_step X img enc w = (Inr (img', enc'), w1) \<and> img < next_ref w
        \<longrightarrow> img' \<noteq> img \<and> heap w1 img = heap w img)"
proof (intro conjI impI)
  show "heap (snd (get_text_from_image X self img l w)) a = heap w a"
    by (simp add: get_text_frame)
next
  assume "get_layout_from_image X self img l w = Some y \<and> a < next_ref w"
  then show "heap (snd y) a = heap w a"
    using get_layout_frame[of X self img l w y] by simp
next
  assume h: "get_layout_elements_from_image X self img l w = Some y' \<and> a < next_ref w"
  then have "map_option snd (get_layout_from_image X self img l w) = Some (snd y')"
    using get_layout_elements_snd[of X self img l w] by simp
  then obtain y where "get_layout_from_image X self img l w = Some y" "snd y = snd y'"
    by auto
  with h show "heap (snd y') a = heap w a"
    using get_layout_frame[of X self img l w y] by simp
next
  assume h: "resize_step X img enc w = (Inr (img', enc'), w1) \<and> img < next_ref w"
  then show "img' \<noteq> img"
    using resize_step_fresh[of X img enc w img' enc' w1] by simp
  from h show "heap w1 img = heap w img"
    using resize_step_frame[of X img enc w "Inr (img', enc')" w1] by simp
qed

theorem caller_image_not_mutated_witness:
  "map_option (\<lambda>y. heap (snd y) 0)
       (get_layout_from_image (example_externals (Some json_two_paragraphs)) example_agent 0
          ''eng'' (example_world big_image)) = Some big_image
   \<and> map_option (\<lambda>y. heap (snd y) 1)
       (get_layout_from_image (example_externals (Some json_two_paragraphs)) example_agent 0
          ''eng'' (example_world big_image))
       = Some \<lparr>width = 3750, height = 3750, pixels = replicate 14062500 0\<rparr>
   \<and> heap (snd (get_text_from_image (example_externals None) example_agent 0 ''eng''
          (example_world big_image))) 0 = big_image"
proof -
  let ?X = "example_externals (Some json_two_paragraphs)"
  let ?w = "example_world big_image"
  obtain y where run: "get_layout_from_image ?X example_agent 0 ''eng'' ?w = Some y"
    and new: "heap (snd y) 1 = \<lparr>width = 3750, height = 3750, pixels = replicate 14062500 0\<rparr>"
    by (simp add: get_layout_from_image_def example_fit_big transcribe_frame)
  have al: "(0::nat) < next_ref ?w" by (simp add: example_defs big_image_def)
  have "heap (snd y) 0 = heap ?w 0"
    using caller_image_not_mutated[where X = ?X and self = example_agent and img = 0
        and l = "''eng''" and w = ?w and y = y and a = 0] run al
    by simp
  moreover have "heap (snd (get_text_from_image (example_externals None) example_agent 0 ''eng''
      ?w)) 0 = heap ?w 0"
    using caller_image_not_mutated[where X = "example_externals None" and self = example_agent
        and img = 0 and l = "''eng''" and w = ?w and a = 0] al
    by simp
  ultimately show ?thesis using run new by (simp add: example_defs big_image_def)
qed

subsection \<open>C10: the empty object\<close>

text \<open>
  Claim C10. When the content parses to the empty dict, \<open>get_layout_from_image\<close> raises
  \<^verbatim>\<open>ValueError\<close>: taking the first of no values raises \<^verbatim>\<open>IndexError\<close>, which
  lines 129 to 132 turn into "Error while extracting the paragraph list from the
  response content.".
\<close>

theorem empty_object_raises:
  assumes "fit_payload X img w = Some (Inr (img', enc), w1)"
    and "chat_completions_create X (client self) (layout_request self enc) = Inr response"
    and "choices response = c # cs"
    and "content (message c) = Some s" and "s \<noteq> ''''"
    and "json_loads X s = Inr (PDict [])"
  shows "map_option fst (get_layout_from_image X self img l w)
     = Some (Inl (ValueError
         ''Error while extracting the paragraph list from the response content.''))"
  by (simp add: get_layout_reaches[OF assms(1,2)] read_paragraphs_loaded[OF assms(3-6)])

theorem empty_object_raises_witness:
  "map_option fst (get_layout_from_image (example_externals (Some json_empty_object))
       example_agent 0 ''eng'' (example_world small_image))
     = Some (Inl (ValueError
         ''Error while extracting the paragraph list from the response content.''))"
  using empty_object_raises[OF example_fit example_create example_choices example_content
      json_not_empty(5) example_loads_values(5), of example_agent "''eng''"]
  by simp

end
